theory Spec2Isabelle
  imports Complex_Main "HOL-Library.Log_Nat"
begin

section \<open>JavaScript values\<close>

text \<open>
  A JavaScript \<open>number\<close> is a double. The model keeps its exact value: a finite double is a
  rational (the two zeros are one value, which \<open>===\<close> and \<open>||\<close> cannot tell apart), and the
  three special values are constructors. The type has more finite values than there are
  doubles; every function below is defined on all of them.
\<close>

datatype number = Finite rat | Infinity | NegInfinity | NaN

text \<open>\<open>a === b\<close> on two numbers: \<open>NaN\<close> is equal to nothing, itself included.\<close>

definition strict_eq :: "number \<Rightarrow> number \<Rightarrow> bool" where
  "strict_eq a b = (a \<noteq> NaN \<and> b \<noteq> NaN \<and> a = b)"

text \<open>
  \<open>Number(b)\<close> for a bigint \<open>b\<close>: the double nearest to \<open>b\<close>, ties to the even significand
  of 53 bits, and an infinity once the rounded magnitude reaches \<open>2 ^ 1024\<close>.
\<close>

definition Number_bigint :: "int \<Rightarrow> number" where
  "Number_bigint b =
     (let a = \<bar>b\<bar>;
          sh = nat (bitlen a - 53);
          q = a div 2 ^ sh;
          r = a mod 2 ^ sh;
          q' = (if 2 ^ sh < 2 * r \<or> (2 * r = 2 ^ sh \<and> odd q) then q + 1 else q);
          m = q' * 2 ^ sh
      in if 2 ^ 1024 \<le> m then (if b < 0 then NegInfinity else Infinity)
         else Finite (of_int (sgn b * m)))"

text \<open>
  \<open>Number(v)\<close> where \<open>v\<close> is a bigint or \<open>undefined\<close> (\<open>None\<close>): \<open>Number(undefined)\<close> is
  \<open>NaN\<close>.
\<close>

definition Number :: "int option \<Rightarrow> number" where
  "Number v = (case v of None \<Rightarrow> NaN | Some b \<Rightarrow> Number_bigint b)"

text \<open>The values an untyped parameter may hold; an object is known by its identity.\<close>

datatype jsval =
    JUndefined
  | JNull
  | JBool bool
  | JNum number
  | JBigInt int
  | JStr string
  | JObj nat

definition truthy :: "jsval \<Rightarrow> bool" where
  "truthy v =
     (case v of
        JUndefined \<Rightarrow> False
      | JNull \<Rightarrow> False
      | JBool b \<Rightarrow> b
      | JNum n \<Rightarrow> n \<noteq> NaN \<and> n \<noteq> Finite 0
      | JBigInt b \<Rightarrow> b \<noteq> 0
      | JStr s \<Rightarrow> s \<noteq> []
      | JObj _ \<Rightarrow> True)"

text \<open>\<open>a || b\<close>\<close>

definition js_or :: "jsval \<Rightarrow> jsval \<Rightarrow> jsval" where
  "js_or a b = (if truthy a then a else b)"

text \<open>\<open>a === b\<close> on any two values: same type and same value, numbers as above.\<close>

definition strict_equals :: "jsval \<Rightarrow> jsval \<Rightarrow> bool" where
  "strict_equals a b =
     (case (a, b) of
        (JNum x, JNum y) \<Rightarrow> strict_eq x y
      | _ \<Rightarrow> a = b)"

text \<open>
  A template literal is kept as its parts, the literal chunks and the interpolated values, so
  that no value has to be printed. Characters outside ASCII are the bytes of their UTF-8
  encoding.
\<close>

datatype part = Lit string | Interp jsval

type_synonym template = "part list"

text \<open>A thrown value.\<close>

datatype exn = TypeError string | ReferenceError string | LibraryError string

definition emoji_check :: string where
  "emoji_check = [CHR 0xE2, CHR 0x9C, CHR 0x85]"

definition emoji_cross :: string where
  "emoji_cross = [CHR 0xE2, CHR 0x9D, CHR 0x8C]"

definition emoji_page :: string where
  "emoji_page = [CHR 0xF0, CHR 0x9F, CHR 0x93, CHR 0x84]"

definition emoji_link :: string where
  "emoji_link = [CHR 0xF0, CHR 0x9F, CHR 0x94, CHR 0x97]"

definition emoji_wrench :: string where
  "emoji_wrench = [CHR 0xF0, CHR 0x9F, CHR 0x94, CHR 0xA7]"


section \<open>The provider and contract adapter\<close>

text \<open>
  What the adapter writes to the console: each call is a level and its arguments, which are
  template strings, object literals and caught errors.
\<close>

datatype console_arg =
    Text template
  | Obj "(string \<times> jsval) list"
  | Thrown exn

datatype console_entry = Log "console_arg list" | Err "console_arg list"

text \<open>
  The constructors of the ethers and viem libraries are parameters: each either returns its
  object or throws. A function of the adapter returns what it wrote to the console and either
  the thrown value (\<open>Inl\<close>) or its result (\<open>Inr\<close>). Its options argument
  \<open>{ chainId } = {}\<close> is given as the value of \<open>chainId\<close>, \<open>JUndefined\<close> when it is absent.
\<close>

definition getProvider ::
  "(string \<Rightarrow> exn + 'p) \<Rightarrow> jsval \<Rightarrow> console_entry list \<times> (exn + 'p)" where
  "getProvider JsonRpcProvider chainId =
     (let targetChainId = js_or chainId (JNum (Finite 84532));
          rpcUrl = (if strict_equals targetChainId (JNum (Finite 8453))
                    then ''https://mainnet.base.org''
                    else ''https://sepolia.base.org'');
          out = [Log [Text [Lit (emoji_link @ '' Creating ethers provider for chain ''),
                            Interp targetChainId]],
                 Log [Text [Lit (emoji_link @ '' RPC URL: ''), Interp (JStr rpcUrl)]]]
      in case JsonRpcProvider rpcUrl of
           Inr provider \<Rightarrow>
             (out @ [Log [Text [Lit (emoji_check @ '' Ethers provider created successfully'')]]],
              Inr provider)
         | Inl error \<Rightarrow>
             (out @ [Err [Text [Lit (emoji_cross @ '' Failed to create ethers provider:'')],
                          Thrown error]],
              Inl error))"

definition getEthersProvider ::
  "(string \<Rightarrow> exn + 'p) \<Rightarrow> 'cfg \<Rightarrow> jsval \<Rightarrow> console_entry list \<times> (exn + 'p)" where
  "getEthersProvider JsonRpcProvider config chainId = getProvider JsonRpcProvider chainId"

definition getContract ::
  "(string \<Rightarrow> exn + 'p) \<Rightarrow> (jsval \<Rightarrow> 'abi \<Rightarrow> 'p \<Rightarrow> exn + 'c) \<Rightarrow>
     jsval \<Rightarrow> 'abi \<Rightarrow> jsval \<Rightarrow> console_entry list \<times> (exn + 'c)" where
  "getContract JsonRpcProvider Contract address abi chainId =
     (case getProvider JsonRpcProvider chainId of
        (out, Inl thrown) \<Rightarrow> (out, Inl thrown)
      | (out, Inr provider) \<Rightarrow>
          (let out' = out @ [Log [Text [Lit (emoji_page @ '' Creating contract at ''),
                                        Interp address]]]
           in case Contract address abi provider of
                Inr contract \<Rightarrow>
                  (out' @ [Log [Text [Lit (emoji_check @ '' Contract created successfully'')]]],
                   Inr contract)
              | Inl error \<Rightarrow>
                  (out' @ [Err [Text [Lit (emoji_cross @ '' Failed to create contract:'')],
                                Thrown error]],
                   Inl error)))"

text \<open>The two chains of \<open>wagmi/chains\<close>; their names are the library's.\<close>

datatype chain = base | baseSepolia

record 't client_config =
  chain :: chain
  transport :: 't

definition getViemClient ::
  "(chain \<Rightarrow> string) \<Rightarrow> (string \<Rightarrow> exn + 't) \<Rightarrow> ('t client_config \<Rightarrow> exn + 'c) \<Rightarrow>
     jsval \<Rightarrow> jsval \<Rightarrow> console_entry list \<times> (exn + 'c)" where
  "getViemClient name http createPublicClient wagmiConfig chainId =
     (let out0 = [Log [Text [Lit (emoji_wrench @ '' getViemClient called with:'')],
                       Obj [(''chainId'', chainId),
                            (''hasConfig'', JBool (truthy wagmiConfig))]]];
          targetChainId = js_or chainId (JNum (Finite 84532));
          chain = (if strict_equals targetChainId (JNum (Finite 8453))
                   then base else baseSepolia);
          rpcUrl = (if strict_equals targetChainId (JNum (Finite 8453))
                    then ''https://mainnet.base.org''
                    else ''https://sepolia.base.org'');
          out = out0 @
                [Log [Text [Lit (emoji_link @ '' Creating viem client for chain ''),
                            Interp targetChainId, Lit '' ('', Interp (JStr (name chain)),
                            Lit '')'']],
                 Log [Text [Lit (emoji_link @ '' RPC URL: ''), Interp (JStr rpcUrl)]]];
          failed = (\<lambda>error.
                      (out @ [Err [Text [Lit (emoji_cross @ '' Failed to create viem client:'')],
                                   Thrown error]],
                       Inl error))
      in case http rpcUrl of
           Inl error \<Rightarrow> failed error
         | Inr tr \<Rightarrow>
             (case createPublicClient \<lparr>chain = chain, transport = tr\<rparr> of
                Inr client \<Rightarrow>
                  (out @ [Log [Text [Lit (emoji_check @ '' Viem client created successfully'')]]],
                   Inr client)
              | Inl error \<Rightarrow> failed error))"

definition getViemWalletClient ::
  "('cfg \<Rightarrow> jsval \<Rightarrow> exn + 'w) \<Rightarrow> 'cfg \<Rightarrow> jsval \<Rightarrow> console_entry list \<times> (exn + 'w)" where
  "getViemWalletClient getConnectorClient wagmiConfig chainId =
     (let out = [Log [Text [Lit (emoji_wrench @
                                 '' Getting viem wallet client for write operations...'')]]]
      in case getConnectorClient wagmiConfig chainId of
           Inr walletClient \<Rightarrow>
             (out @ [Log [Text [Lit (emoji_check @ '' Viem wallet client obtained'')]]],
              Inr walletClient)
         | Inl error \<Rightarrow>
             (out @ [Err [Text [Lit (emoji_cross @ '' Failed to get viem wallet client:'')],
                          Thrown error]],
              Inl error))"


section \<open>The event-subscription hook\<close>

datatype GameEventType =
    GameCreated
  | PlayerJoined
  | MoveMade
  | GameFinished
  | NumberGenerated
  | TimeoutHandled
  | GameCancelled

text \<open>A tag of the union type is, at run time, the string of its name.\<close>

fun tag :: "GameEventType \<Rightarrow> string" where
  "tag GameCreated = ''GameCreated''"
| "tag PlayerJoined = ''PlayerJoined''"
| "tag MoveMade = ''MoveMade''"
| "tag GameFinished = ''GameFinished''"
| "tag NumberGenerated = ''NumberGenerated''"
| "tag TimeoutHandled = ''TimeoutHandled''"
| "tag GameCancelled = ''GameCancelled''"

text \<open>
  The decoded arguments of an event (\<open>args\<close>, typed \<open>any\<close> in the source): \<open>gameId\<close> is a
  bigint or \<open>undefined\<close> (\<open>None\<close>), the two values the move toast prints are any values, and
  the rest is an opaque payload. The fields of every record carry a short prefix, since the
  source uses \<open>gameId\<close> and \<open>args\<close> for fields of several objects and for parameters.
\<close>

record event_args =
  arg_gameId :: "int option"
  arg_subtraction :: jsval
  arg_newNumber :: jsval
  arg_others :: "(string \<times> jsval) list"

text \<open>
  A log (\<open>log: any\<close>): the live subscription reads \<open>args\<close>, the historical fetch reads
  \<open>data\<close> and \<open>topics\<close>, both read \<open>blockNumber\<close> and \<open>transactionHash\<close>.
\<close>

record event_log =
  log_args :: event_args
  log_data :: string
  log_topics :: "string list"
  log_blockNumber :: int
  log_transactionHash :: string

text \<open>
  The event record \<open>{type, gameId, args, blockNumber, transactionHash}\<close>. The kind is the
  run-time string: the historical fetch stores the name the decoder returns.
\<close>

record GameEventData =
  ev_type :: string
  ev_gameId :: "int option"
  ev_args :: event_args
  ev_blockNumber :: int
  ev_transactionHash :: string

text \<open>
  What the handler does, in order: a toast, the call of the caller's callback with what that
  call gave (of a type \<open>'c\<close> the caller chooses), and the console line with the event
  record. The callback is taken to return, and a log delivered by the subscription to carry
  its \<open>args\<close> object.
\<close>

datatype 'c effect =
    ToastSuccess template
  | OnEvent GameEventData 'c
  | ConsoleLog template GameEventData

text \<open>
  The \<open>toast\<close> object the source imports from \<open>react-hot-toast\<close>. It has the methods
  \<open>success\<close>, \<open>error\<close>, \<open>loading\<close>, \<open>custom\<close>, \<open>promise\<close>, \<open>dismiss\<close> and
  \<open>remove\<close>; \<open>toast.warning\<close> and \<open>toast.info\<close> are \<open>undefined\<close>, and calling them
  throws a \<open>TypeError\<close>. The source has no \<open>try\<close> around its toast calls. A call gives
  the toasts shown and the value thrown, if any.
\<close>

datatype toast_method = ToastSuccessMethod | ToastWarningMethod | ToastInfoMethod

definition toast :: "toast_method \<Rightarrow> template \<Rightarrow> 'c effect list \<times> exn option" where
  "toast method message =
     (case method of
        ToastSuccessMethod \<Rightarrow> ([ToastSuccess message], None)
      | ToastWarningMethod \<Rightarrow> ([], Some (TypeError ''toast.warning is not a function''))
      | ToastInfoMethod \<Rightarrow> ([], Some (TypeError ''toast.info is not a function'')))"

definition emoji_video_game :: string where
  "emoji_video_game = [CHR 0xF0, CHR 0x9F, CHR 0x8E, CHR 0xAE]"

definition emoji_dart :: string where
  "emoji_dart = [CHR 0xF0, CHR 0x9F, CHR 0x8E, CHR 0xAF]"

definition emoji_party :: string where
  "emoji_party = [CHR 0xF0, CHR 0x9F, CHR 0x8E, CHR 0x89]"

definition emoji_die :: string where
  "emoji_die = [CHR 0xF0, CHR 0x9F, CHR 0x8E, CHR 0xB2]"

definition emoji_alarm_clock :: string where
  "emoji_alarm_clock = [CHR 0xE2, CHR 0x8F, CHR 0xB0]"

definition arrow_right :: string where
  "arrow_right = [CHR 0xE2, CHR 0x86, CHR 0x92]"

definition emoji_antenna :: string where
  "emoji_antenna = [CHR 0xF0, CHR 0x9F, CHR 0x93, CHR 0xA1]"

definition emoji_cycle :: string where
  "emoji_cycle = [CHR 0xF0, CHR 0x9F, CHR 0x94, CHR 0x84]"

text \<open>
  The body of \<open>logs.forEach\<close> in \<open>handleEvent\<close>, for one log (\<open>lg\<close>, as \<open>log\<close> is the
  logarithm here): its effects and the value it throws, if any. The \<open>switch\<close> has no case
  for \<open>GameCreated\<close> and no default. A throw of the toast call ends the body before the
  callback and the console line.
\<close>

definition handleLog ::
  "number option \<Rightarrow> (GameEventData \<Rightarrow> 'c) option \<Rightarrow> bool \<Rightarrow> GameEventType \<Rightarrow> event_log \<Rightarrow>
     'c effect list \<times> exn option" where
  "handleLog gameId onEvent showToasts eventName lg =
     (let eventGameId = arg_gameId (log_args lg)
      in if (case gameId of
               None \<Rightarrow> False
             | Some g \<Rightarrow> \<not> strict_eq (Number eventGameId) g)
         then ([], None)
         else
           (let eventData =
                  \<lparr>ev_type = tag eventName,
                   ev_gameId = eventGameId,
                   ev_args = log_args lg,
                   ev_blockNumber = log_blockNumber lg,
                   ev_transactionHash = log_transactionHash lg\<rparr>
            in case (if showToasts then
                       (case eventName of
                          PlayerJoined \<Rightarrow>
                            toast ToastSuccessMethod
                              [Lit (emoji_video_game @ '' Player joined the game!'')]
                        | MoveMade \<Rightarrow>
                            toast ToastSuccessMethod
                              [Lit (emoji_dart @ '' Move made: ''),
                               Interp (arg_subtraction (log_args lg)),
                               Lit ('' '' @ arrow_right @ '' ''),
                               Interp (arg_newNumber (log_args lg))]
                        | GameFinished \<Rightarrow>
                            toast ToastSuccessMethod [Lit (emoji_party @ '' Game finished!'')]
                        | NumberGenerated \<Rightarrow>
                            toast ToastSuccessMethod
                              [Lit (emoji_die @ '' Game started! Number generated.'')]
                        | TimeoutHandled \<Rightarrow>
                            toast ToastWarningMethod
                              [Lit (emoji_alarm_clock @ '' Timeout handled'')]
                        | GameCancelled \<Rightarrow>
                            toast ToastInfoMethod [Lit (emoji_cross @ '' Game cancelled'')]
                        | GameCreated \<Rightarrow> ([], None))
                     else ([], None)) of
                 (toasts, Some thrown) \<Rightarrow> (toasts, Some thrown)
               | (toasts, None) \<Rightarrow>
                   (toasts @
                    (case onEvent of
                       None \<Rightarrow> []
                     | Some callback \<Rightarrow> [OnEvent eventData (callback eventData)]) @
                    [ConsoleLog
                       [Lit (emoji_antenna @ '' Event: ''), Interp (JStr (tag eventName))]
                       eventData],
                    None)))"

text \<open>\<open>xs.forEach(f)\<close> where \<open>f\<close> may throw: the first throw ends the loop.\<close>

fun forEach :: "('a \<Rightarrow> 'e list \<times> exn option) \<Rightarrow> 'a list \<Rightarrow> 'e list \<times> exn option" where
  "forEach f [] = ([], None)"
| "forEach f (x # xs) =
     (case f x of
        (out, Some thrown) \<Rightarrow> (out, Some thrown)
      | (out, None) \<Rightarrow> (case forEach f xs of (out', r) \<Rightarrow> (out @ out', r)))"

definition handleEvent ::
  "number option \<Rightarrow> (GameEventData \<Rightarrow> 'c) option \<Rightarrow> bool \<Rightarrow> GameEventType \<Rightarrow> event_log list \<Rightarrow>
     'c effect list \<times> exn option" where
  "handleEvent gameId onEvent showToasts eventName logs =
     forEach (handleLog gameId onEvent showToasts eventName) logs"

text \<open>
  \<open>options?: {showToasts?: boolean; enabled?: boolean}\<close>, and the argument of one
  \<open>useWatchContractEvent\<close> call. The hook is modelled by the list of the calls it makes.
\<close>

record options =
  opt_showToasts :: "bool option"
  opt_enabled :: "bool option"

record ('abi, 'c) watcher =
  w_address :: string
  w_abi :: 'abi
  w_eventName :: string
  w_onLogs :: "event_log list \<Rightarrow> 'c effect list \<times> exn option"
  w_enabled :: bool

definition useGameEvents ::
  "string \<Rightarrow> 'abi \<Rightarrow> number option \<Rightarrow> (GameEventData \<Rightarrow> 'c) option \<Rightarrow> options option \<Rightarrow>
     ('abi, 'c) watcher list" where
  "useGameEvents gameContractAddress ZeroSumSimplifiedABI gameId onEvent opts =
     (let showToasts =
            (case opts of
               None \<Rightarrow> True
             | Some os \<Rightarrow> (case opt_showToasts os of None \<Rightarrow> True | Some b \<Rightarrow> b));
          enabled =
            (case opts of
               None \<Rightarrow> True
             | Some os \<Rightarrow> (case opt_enabled os of None \<Rightarrow> True | Some b \<Rightarrow> b));
          watch = (\<lambda>eventName handled.
                     \<lparr>w_address = gameContractAddress,
                      w_abi = ZeroSumSimplifiedABI,
                      w_eventName = eventName,
                      w_onLogs = (\<lambda>logs. handleEvent gameId onEvent showToasts handled logs),
                      w_enabled = enabled\<rparr>)
      in [watch ''PlayerJoined'' PlayerJoined,
          watch ''MoveMade'' MoveMade,
          watch ''GameFinished'' GameFinished,
          watch ''NumberGenerated'' NumberGenerated,
          watch ''TimeoutHandled'' TimeoutHandled,
          watch ''GameCancelled'' GameCancelled])"

text \<open>
  The callback \<open>useGameEventRefresh\<close> passes on: a console line, then \<open>onRefresh()\<close>, whose
  outcome is of a type \<open>'r\<close> the caller chooses.
\<close>

datatype 'r refresh_step = Logged console_entry | OnRefresh 'r

definition useGameEventRefresh ::
  "string \<Rightarrow> 'abi \<Rightarrow> number \<Rightarrow> 'r \<Rightarrow> ('abi, 'r refresh_step list) watcher list" where
  "useGameEventRefresh gameContractAddress ZeroSumSimplifiedABI gameId onRefresh =
     useGameEvents gameContractAddress ZeroSumSimplifiedABI (Some gameId)
       (Some (\<lambda>event.
          [Logged (Log [Text [Lit (emoji_cycle @ '' Auto-refreshing game ''),
                              Interp (JNum gameId),
                              Lit '' due to '',
                              Interp (JStr (ev_type event))]]),
           OnRefresh onRefresh]))
       None"


section \<open>The historical fetch\<close>

text \<open>
  What \<open>decodeEventLog\<close> returns: the event's name and its arguments, which are absent
  (\<open>undefined\<close>) for an event without inputs.
\<close>

record decoded =
  dec_eventName :: string
  dec_args :: "event_args option"

record get_logs_request =
  q_address :: string
  q_fromBlock :: int
  q_toBlock :: string

record public_client =
  getLogs :: "get_logs_request \<Rightarrow> exn + event_log list"

text \<open>
  The source calls \<open>decodeEventLog\<close> and imports no binding of that name. The model takes
  the function the name stands for as a parameter, with the ABI constant of the absent
  configuration module; a call either returns the decoded event or throws. A name bound to
  nothing throws at every call, which is the parameter that is \<open>Inl\<close> everywhere.

  The callback of \<open>filter\<close>: its \<open>try\<close> turns a throw into \<open>false\<close>, and
  \<open>decoded.args?.gameId && ...\<close> is falsy when the arguments or the identifier are absent
  and when the identifier is \<open>0n\<close>.
\<close>

definition fetchEvents_filter ::
  "('abi \<Rightarrow> string \<Rightarrow> string list \<Rightarrow> exn + decoded) \<Rightarrow> 'abi \<Rightarrow> number \<Rightarrow> event_log \<Rightarrow> bool" where
  "fetchEvents_filter decodeEventLog ZeroSumSimplifiedABI gameId lg =
     (case decodeEventLog ZeroSumSimplifiedABI (log_data lg) (log_topics lg) of
        Inl thrown \<Rightarrow> False
      | Inr decoded \<Rightarrow>
          (case dec_args decoded of
             None \<Rightarrow> False
           | Some a \<Rightarrow>
               (case arg_gameId a of
                  None \<Rightarrow> False
                | Some b \<Rightarrow> b \<noteq> 0 \<and> strict_eq (Number (Some b)) gameId)))"

text \<open>
  The callback of \<open>map\<close> decodes again, outside any \<open>try\<close>; reading \<open>gameId\<close> of absent
  arguments throws a \<open>TypeError\<close>.
\<close>

definition fetchEvents_map ::
  "('abi \<Rightarrow> string \<Rightarrow> string list \<Rightarrow> exn + decoded) \<Rightarrow> 'abi \<Rightarrow> event_log \<Rightarrow>
     exn + GameEventData" where
  "fetchEvents_map decodeEventLog ZeroSumSimplifiedABI lg =
     (case decodeEventLog ZeroSumSimplifiedABI (log_data lg) (log_topics lg) of
        Inl thrown \<Rightarrow> Inl thrown
      | Inr decoded \<Rightarrow>
          (case dec_args decoded of
             None \<Rightarrow> Inl (TypeError ''Cannot read properties of undefined (reading 'gameId')'')
           | Some a \<Rightarrow>
               Inr \<lparr>ev_type = dec_eventName decoded,
                    ev_gameId = arg_gameId a,
                    ev_args = a,
                    ev_blockNumber = log_blockNumber lg,
                    ev_transactionHash = log_transactionHash lg\<rparr>))"

text \<open>\<open>xs.map(f)\<close> where \<open>f\<close> may throw: the first throw ends the whole call.\<close>

fun map_throwing :: "('a \<Rightarrow> exn + 'b) \<Rightarrow> 'a list \<Rightarrow> exn + 'b list" where
  "map_throwing f [] = Inr []"
| "map_throwing f (x # xs) =
     (case f x of
        Inl thrown \<Rightarrow> Inl thrown
      | Inr y \<Rightarrow>
          (case map_throwing f xs of
             Inl thrown \<Rightarrow> Inl thrown
           | Inr ys \<Rightarrow> Inr (y # ys)))"

text \<open>
  \<open>fetchEvents\<close> is asynchronous: \<open>Inr\<close> is the value its promise resolves to, \<open>Inl\<close> a
  rejection. The first component is what it writes to the console.
\<close>

definition fetchEvents ::
  "('abi \<Rightarrow> string \<Rightarrow> string list \<Rightarrow> exn + decoded) \<Rightarrow> 'abi \<Rightarrow> string \<Rightarrow>
     public_client option \<Rightarrow> number \<Rightarrow> int \<Rightarrow>
     console_entry list \<times> (exn + GameEventData list)" where
  "fetchEvents decodeEventLog ZeroSumSimplifiedABI gameContractAddress publicClient gameId
     fromBlock =
     (case publicClient of
        None \<Rightarrow> ([], Inr [])
      | Some client \<Rightarrow>
          (case (case getLogs client
                        \<lparr>q_address = gameContractAddress,
                         q_fromBlock = fromBlock,
                         q_toBlock = ''latest''\<rparr> of
                   Inl thrown \<Rightarrow> Inl thrown
                 | Inr logs \<Rightarrow>
                     map_throwing (fetchEvents_map decodeEventLog ZeroSumSimplifiedABI)
                       (filter (fetchEvents_filter decodeEventLog ZeroSumSimplifiedABI gameId)
                          logs)) of
             Inr gameEvents \<Rightarrow> ([], Inr gameEvents)
           | Inl error \<Rightarrow>
               ([Err [Text [Lit ''Error fetching event history:''], Thrown error]], Inr [])))"




section \<open>Reading a trace\<close>

text \<open>Which effects are toasts, and the event record an effect carries.\<close>

fun is_toast :: "'c effect \<Rightarrow> bool" where
  "is_toast (ToastSuccess t) = True"
| "is_toast (OnEvent ev r) = False"
| "is_toast (ConsoleLog t ev) = False"


text \<open>How many times an effect of the refresh hook called \<open>onRefresh\<close>.\<close>

fun is_refresh :: "'r refresh_step \<Rightarrow> bool" where
  "is_refresh (OnRefresh r) = True"
| "is_refresh (Logged entry) = False"

fun refresh_calls :: "'r refresh_step list effect \<Rightarrow> nat" where
  "refresh_calls (OnEvent ev steps) = length (filter is_refresh steps)"
| "refresh_calls (ToastSuccess t) = 0"
| "refresh_calls (ConsoleLog t ev) = 0"


section \<open>Example inputs\<close>

text \<open>
  Concrete arguments, logs, decoders, clients and constructors, on which the theorems below
  are evaluated.
\<close>

definition example_args :: "int option \<Rightarrow> event_args" where
  "example_args i =
     \<lparr>arg_gameId = i, arg_subtraction = JBigInt 3, arg_newNumber = JBigInt 7,
      arg_others = []\<rparr>"

definition example_log :: "string \<Rightarrow> int option \<Rightarrow> event_log" where
  "example_log d i =
     \<lparr>log_args = example_args i, log_data = d, log_topics = [''0xaa''],
      log_blockNumber = 100, log_transactionHash = ''0xabc''\<rparr>"

text \<open>
  A decoder that throws on empty data and otherwise returns an event of the given name with
  the given game identifier.
\<close>

definition decode_as ::
  "string \<Rightarrow> int option \<Rightarrow> unit \<Rightarrow> string \<Rightarrow> string list \<Rightarrow> exn + decoded" where
  "decode_as name i abi d ts =
     (if d = ''0x'' then Inl (LibraryError ''AbiEventSignatureEmptyTopicsError'')
      else Inr \<lparr>dec_eventName = name, dec_args = Some (example_args i)\<rparr>)"

definition client_returning :: "event_log list \<Rightarrow> public_client" where
  "client_returning logs = \<lparr>getLogs = (\<lambda>request. Inr logs)\<rparr>"

definition client_throwing :: "exn \<Rightarrow> public_client" where
  "client_throwing thrown = \<lparr>getLogs = (\<lambda>request. Inl thrown)\<rparr>"

text \<open>The names the chain objects of the library carry.\<close>

fun chain_name :: "chain \<Rightarrow> string" where
  "chain_name base = ''Base''"
| "chain_name baseSepolia = ''Base Sepolia''"

text \<open>Library constructors that throw, of one, two and three arguments.\<close>

definition throwing :: "exn \<Rightarrow> 'a \<Rightarrow> exn + 'b" where
  "throwing thrown x = Inl thrown"

definition throwing2 :: "exn \<Rightarrow> 'a \<Rightarrow> 'b \<Rightarrow> exn + 'c" where
  "throwing2 thrown x y = Inl thrown"

definition throwing3 :: "exn \<Rightarrow> 'a \<Rightarrow> 'b \<Rightarrow> 'c \<Rightarrow> exn + 'd" where
  "throwing3 thrown x y z = Inl thrown"


section \<open>Network selection\<close>

lemma target_is_mainnet_iff:
  "strict_equals (js_or chainId (JNum (Finite 84532))) (JNum (Finite 8453)) \<longleftrightarrow>
     chainId = JNum (Finite 8453)"
proof (cases chainId)
  case (JNum n)
  then show ?thesis
    by (cases n) (auto simp: js_or_def truthy_def strict_equals_def strict_eq_def)
qed (auto simp: js_or_def truthy_def strict_equals_def strict_eq_def)

lemma getProvider_snd:
  "snd (getProvider JsonRpcProvider chainId) =
     JsonRpcProvider (if chainId = JNum (Finite 8453) then ''https://mainnet.base.org''
                      else ''https://sepolia.base.org'')"
  by (simp add: getProvider_def target_is_mainnet_iff Let_def split: sum.split)

lemma getViemClient_snd:
  "snd (getViemClient name http createPublicClient wagmiConfig chainId) =
     (case http (if chainId = JNum (Finite 8453) then ''https://mainnet.base.org''
                 else ''https://sepolia.base.org'') of
        Inl thrown \<Rightarrow> Inl thrown
      | Inr tr \<Rightarrow>
          createPublicClient
            \<lparr>chain = (if chainId = JNum (Finite 8453) then base else baseSepolia),
             transport = tr\<rparr>)"
  by (simp add: getViemClient_def target_is_mainnet_iff Let_def split: sum.split)

text \<open>
  Claim C2. For every value of \<open>chainId\<close>, absent (\<open>JUndefined\<close>) included, \<open>getProvider\<close>
  and \<open>getViemClient\<close> build their client on one of the two URLs: on
  \<open>https://mainnet.base.org\<close> when the value is the number 8453 and on
  \<open>https://sepolia.base.org\<close> for every other value. The URL shows as the argument the
  library constructor is called with, whose outcome is the function's.
\<close>

theorem rpc_url_selection_total:
  "snd (getProvider JsonRpcProvider chainId) =
     JsonRpcProvider (if chainId = JNum (Finite 8453) then ''https://mainnet.base.org''
                      else ''https://sepolia.base.org'') \<and>
   snd (getViemClient name http createPublicClient wagmiConfig chainId) =
     (case http (if chainId = JNum (Finite 8453) then ''https://mainnet.base.org''
                 else ''https://sepolia.base.org'') of
        Inl thrown \<Rightarrow> Inl thrown
      | Inr tr \<Rightarrow>
          createPublicClient
            \<lparr>chain = (if chainId = JNum (Finite 8453) then base else baseSepolia),
             transport = tr\<rparr>)"
  using getProvider_snd getViemClient_snd by blast


section \<open>Errors of construction\<close>

lemma getProvider_logs:
  assumes "snd (getProvider JsonRpcProvider chainId) = Inl e"
  shows "\<exists>msg. last (fst (getProvider JsonRpcProvider chainId)) =
           Err [Text [Lit msg], Thrown e]"
  using assms by (auto simp: getProvider_def Let_def split: sum.splits if_splits)

lemma getContract_snd:
  "snd (getContract JsonRpcProvider Contract address abi chainId) =
     (case JsonRpcProvider (if chainId = JNum (Finite 8453) then ''https://mainnet.base.org''
                            else ''https://sepolia.base.org'') of
        Inl thrown \<Rightarrow> Inl thrown
      | Inr provider \<Rightarrow> Contract address abi provider)"
proof -
  obtain out r where g: "getProvider JsonRpcProvider chainId = (out, r)"
    by (cases "getProvider JsonRpcProvider chainId")
  then have r: "r = JsonRpcProvider (if chainId = JNum (Finite 8453)
                   then ''https://mainnet.base.org'' else ''https://sepolia.base.org'')"
    using getProvider_snd [of JsonRpcProvider chainId] by simp
  show ?thesis
    unfolding getContract_def g r [symmetric]
    by (cases r) (simp_all add: Let_def split: sum.split)
qed

lemma getContract_logs:
  assumes "snd (getContract JsonRpcProvider Contract address abi chainId) = Inl e"
  shows "\<exists>msg. last (fst (getContract JsonRpcProvider Contract address abi chainId)) =
           Err [Text [Lit msg], Thrown e]"
proof -
  obtain out r where g: "getProvider JsonRpcProvider chainId = (out, r)"
    by (cases "getProvider JsonRpcProvider chainId")
  show ?thesis
  proof (cases r)
    case (Inl thrown)
    with g assms have "thrown = e" by (simp add: getContract_def)
    with g Inl getProvider_logs [of JsonRpcProvider chainId e] show ?thesis
      by (simp add: getContract_def)
  next
    case (Inr provider)
    with g assms show ?thesis
      by (auto simp: getContract_def Let_def split: sum.splits)
  qed
qed

lemma getViemClient_logs:
  assumes "snd (getViemClient name http createPublicClient wagmiConfig chainId) = Inl e"
  shows "\<exists>msg. last (fst (getViemClient name http createPublicClient wagmiConfig chainId)) =
           Err [Text [Lit msg], Thrown e]"
  using assms by (auto simp: getViemClient_def Let_def split: sum.splits if_splits)

lemma getViemWalletClient_snd:
  "snd (getViemWalletClient getConnectorClient wagmiConfig chainId) =
     getConnectorClient wagmiConfig chainId"
  by (simp add: getViemWalletClient_def Let_def split: sum.split)

lemma getViemWalletClient_logs:
  assumes "snd (getViemWalletClient getConnectorClient wagmiConfig chainId) = Inl e"
  shows "\<exists>msg. last (fst (getViemWalletClient getConnectorClient wagmiConfig chainId)) =
           Err [Text [Lit msg], Thrown e]"
  using assms by (auto simp: getViemWalletClient_def Let_def split: sum.splits)

text \<open>
  Claim C8. Each of \<open>getProvider\<close>, \<open>getContract\<close>, \<open>getViemClient\<close> and
  \<open>getViemWalletClient\<close> ends as the library construction it wraps ends: it returns the
  constructed object when the construction returns one, and when the construction throws it
  throws the same value, after writing it to the console with \<open>console.error\<close> (the last
  console entry of the call). For \<open>getContract\<close> the construction is that of the provider
  followed by that of the contract, and a throw of the former is logged by \<open>getProvider\<close>.
\<close>

theorem construction_errors_logged_and_rethrown:
  "snd (getProvider JsonRpcProvider chainId) =
     JsonRpcProvider (if chainId = JNum (Finite 8453) then ''https://mainnet.base.org''
                      else ''https://sepolia.base.org'') \<and>
   (snd (getProvider JsonRpcProvider chainId) = Inl e \<longrightarrow>
      (\<exists>msg. last (fst (getProvider JsonRpcProvider chainId)) =
         Err [Text [Lit msg], Thrown e])) \<and>
   snd (getContract JsonRpcProvider Contract address abi chainId) =
     (case JsonRpcProvider (if chainId = JNum (Finite 8453) then ''https://mainnet.base.org''
                            else ''https://sepolia.base.org'') of
        Inl thrown \<Rightarrow> Inl thrown
      | Inr provider \<Rightarrow> Contract address abi provider) \<and>
   (snd (getContract JsonRpcProvider Contract address abi chainId) = Inl e \<longrightarrow>
      (\<exists>msg. last (fst (getContract JsonRpcProvider Contract address abi chainId)) =
         Err [Text [Lit msg], Thrown e])) \<and>
   snd (getViemClient name http createPublicClient wagmiConfig chainId) =
     (case http (if chainId = JNum (Finite 8453) then ''https://mainnet.base.org''
                 else ''https://sepolia.base.org'') of
        Inl thrown \<Rightarrow> Inl thrown
      | Inr tr \<Rightarrow>
          createPublicClient
            \<lparr>chain = (if chainId = JNum (Finite 8453) then base else baseSepolia),
             transport = tr\<rparr>) \<and>
   (snd (getViemClient name http createPublicClient wagmiConfig chainId) = Inl e \<longrightarrow>
      (\<exists>msg. last (fst (getViemClient name http createPublicClient wagmiConfig chainId)) =
         Err [Text [Lit msg], Thrown e])) \<and>
   snd (getViemWalletClient getConnectorClient config chainId) =
     getConnectorClient config chainId \<and>
   (snd (getViemWalletClient getConnectorClient config chainId) = Inl e \<longrightarrow>
      (\<exists>msg. last (fst (getViemWalletClient getConnectorClient config chainId)) =
         Err [Text [Lit msg], Thrown e]))"
  using getProvider_snd [of JsonRpcProvider chainId]
    getProvider_logs [of JsonRpcProvider chainId e]
    getContract_snd [of JsonRpcProvider Contract address abi chainId]
    getContract_logs [of JsonRpcProvider Contract address abi chainId e]
    getViemClient_snd [of name http createPublicClient wagmiConfig chainId]
    getViemClient_logs [of name http createPublicClient wagmiConfig chainId e]
    getViemWalletClient_snd [of getConnectorClient config chainId]
    getViemWalletClient_logs [of getConnectorClient config chainId e]
  by (intro conjI impI) assumption+

theorem construction_errors_logged_and_rethrown_witness:
  "snd (getProvider (throwing (LibraryError ''bad url'') :: string \<Rightarrow> exn + unit) JUndefined) =
     Inl (LibraryError ''bad url'') \<and>
   (\<exists>msg. last (fst (getProvider
        (throwing (LibraryError ''bad url'') :: string \<Rightarrow> exn + unit) JUndefined)) =
      Err [Text [Lit msg], Thrown (LibraryError ''bad url'')]) \<and>
   (\<exists>msg. last (fst (getContract (Inr :: string \<Rightarrow> exn + string)
        (throwing3 (LibraryError ''bad url'') :: jsval \<Rightarrow> unit \<Rightarrow> string \<Rightarrow> exn + unit)
        (JStr ''0xC0'') () JUndefined)) =
      Err [Text [Lit msg], Thrown (LibraryError ''bad url'')]) \<and>
   (\<exists>msg. last (fst (getViemClient chain_name
        (throwing (LibraryError ''bad url'') :: string \<Rightarrow> exn + unit)
        (Inr :: unit client_config \<Rightarrow> exn + unit client_config) JNull JUndefined)) =
      Err [Text [Lit msg], Thrown (LibraryError ''bad url'')]) \<and>
   (\<exists>msg. last (fst (getViemWalletClient
        (throwing2 (LibraryError ''bad url'') :: unit \<Rightarrow> jsval \<Rightarrow> exn + unit)
        () JUndefined)) =
      Err [Text [Lit msg], Thrown (LibraryError ''bad url'')]) \<and>
   snd (getProvider (Inr :: string \<Rightarrow> exn + string) (JNum (Finite 8453))) =
     Inr ''https://mainnet.base.org''"
  using construction_errors_logged_and_rethrown
    [of "throwing (LibraryError ''bad url'') :: string \<Rightarrow> exn + unit" JUndefined
        "LibraryError ''bad url''"
        "throwing3 (LibraryError ''bad url'') :: jsval \<Rightarrow> unit \<Rightarrow> unit \<Rightarrow> exn + unit"
        "JStr ''0xC0''" "()" chain_name
        "throwing (LibraryError ''bad url'') :: string \<Rightarrow> exn + unit"
        "Inr :: unit client_config \<Rightarrow> exn + unit client_config" JNull
        "throwing2 (LibraryError ''bad url'') :: unit \<Rightarrow> jsval \<Rightarrow> exn + unit" "()"]
    getContract_logs [of "Inr :: string \<Rightarrow> exn + string"
        "throwing3 (LibraryError ''bad url'') :: jsval \<Rightarrow> unit \<Rightarrow> string \<Rightarrow> exn + unit"
        "JStr ''0xC0''" "()" JUndefined "LibraryError ''bad url''"]
    getContract_snd [of "Inr :: string \<Rightarrow> exn + string"
        "throwing3 (LibraryError ''bad url'') :: jsval \<Rightarrow> unit \<Rightarrow> string \<Rightarrow> exn + unit"
        "JStr ''0xC0''" "()" JUndefined]
    getProvider_snd [of "Inr :: string \<Rightarrow> exn + string" "JNum (Finite 8453)"]
  by (simp add: throwing_def throwing2_def throwing3_def)


section \<open>Conversion of identifiers\<close>

text \<open>
  \<open>Number\<close> is exact on every bigint of magnitude at most \<open>2 ^ 53\<close>, so that for such an
  identifier the comparison of the code is equality with the target. Beyond, it rounds:
  \<open>2 ^ 53 + 1\<close> becomes \<open>2 ^ 53\<close>.
\<close>

lemma Number_bigint_pow53:
  "Number_bigint (2 ^ 53) = Finite (of_int (2 ^ 53))"
  "Number_bigint (- (2 ^ 53)) = Finite (of_int (- (2 ^ 53)))"
  by code_simp+

lemma Number_bigint_safe:
  assumes "\<bar>b\<bar> \<le> 2 ^ 53"
  shows "Number_bigint b = Finite (of_int b)"
proof (cases "\<bar>b\<bar> = 2 ^ 53")
  case True
  then have "b = 2 ^ 53 \<or> b = - (2 ^ 53)" by (auto simp: abs_if split: if_splits)
  then show ?thesis using Number_bigint_pow53 by metis
next
  case False
  with assms have a: "\<bar>b\<bar> < 2 ^ 53" by simp
  then have "bitlen \<bar>b\<bar> \<le> 53" by (simp add: bitlen_le_iff_power)
  then have sh: "nat (bitlen \<bar>b\<bar> - 53) = 0" by simp
  have lt: "\<bar>b\<bar> < 2 ^ 1024" using a by (rule less_trans) simp
  have "sgn b * \<bar>b\<bar> = b" by (simp add: mult_sgn_abs)
  then show ?thesis using lt by (simp add: Number_bigint_def sh Let_def)
qed

lemma safe_id_matches_iff:
  assumes "\<bar>b\<bar> \<le> 2 ^ 53"
  shows "strict_eq (Number (Some b)) g \<longleftrightarrow> g = Finite (of_int b)"
  using Number_bigint_safe [OF assms] by (auto simp: strict_eq_def Number_def)

lemma Number_bigint_rounds:
  "Number_bigint 9007199254740993 = Finite 9007199254740992"
  by code_simp

lemma Number_small:
  "Number (Some 0) = Finite 0" "Number (Some 1) = Finite 1" "Number (Some 2) = Finite 2"
  "Number (Some 5) = Finite 5"
  by (simp_all add: Number_def Number_bigint_safe)


section \<open>The historical fetch: what it returns\<close>

lemma map_throwing_Inr_iff:
  "map_throwing f xs = Inr ys \<longleftrightarrow> map f xs = map Inr ys"
proof (induction xs arbitrary: ys)
  case Nil
  then show ?case by auto
next
  case (Cons x xs)
  show ?case
  proof (cases "f x")
    case (Inl e)
    then show ?thesis by (cases ys) auto
  next
    case (Inr y)
    show ?thesis
    proof (cases "map_throwing f xs")
      case (Inl e)
      have "map f xs \<noteq> map Inr zs" for zs
        using Cons.IH [of zs] Inl by simp
      with Inl Inr show ?thesis by (cases ys) auto
    next
      case r: (Inr zs)
      with Cons.IH [of zs] have "map f xs = map Inr zs" by simp
      with r Inr show ?thesis by (cases ys) (auto simp: inj_map_eq_map)
    qed
  qed
qed

lemma map_throwing_total:
  assumes "\<And>x. x \<in> set xs \<Longrightarrow> \<exists>y. f x = Inr y"
  shows "\<exists>ys. map_throwing f xs = Inr ys"
  using assms
proof (induction xs)
  case Nil
  then show ?case by simp
next
  case (Cons x xs)
  then obtain y ys where "f x = Inr y" "map_throwing f xs = Inr ys"
    by (metis list.set_intros(1) list.set_intros(2))
  then show ?case by simp
qed

lemma filter_then_map_succeeds:
  assumes "fetchEvents_filter decodeEventLog abi gameId lg"
  shows "\<exists>ev. fetchEvents_map decodeEventLog abi lg = Inr ev"
  using assms
  by (auto simp: fetchEvents_filter_def fetchEvents_map_def split: sum.splits option.splits)

lemma fetch_map_never_throws:
  "\<exists>evs. map_throwing (fetchEvents_map decodeEventLog abi)
           (filter (fetchEvents_filter decodeEventLog abi gameId) logs) = Inr evs"
proof (rule map_throwing_total)
  fix x
  assume "x \<in> set (filter (fetchEvents_filter decodeEventLog abi gameId) logs)"
  then have "fetchEvents_filter decodeEventLog abi gameId x" by simp
  then show "\<exists>y. fetchEvents_map decodeEventLog abi x = Inr y"
    by (rule filter_then_map_succeeds)
qed

lemma fetchEvents_on_logs:
  assumes "getLogs client
             \<lparr>q_address = addr, q_fromBlock = fromBlock, q_toBlock = ''latest''\<rparr> = Inr logs"
  shows "\<exists>evs. fetchEvents decodeEventLog abi addr (Some client) gameId fromBlock =
                 ([], Inr evs) \<and>
               map Inr evs =
                 map (fetchEvents_map decodeEventLog abi)
                   (filter (fetchEvents_filter decodeEventLog abi gameId) logs)"
proof -
  from fetch_map_never_throws [of decodeEventLog abi gameId logs]
  obtain evs where evs:
    "map_throwing (fetchEvents_map decodeEventLog abi)
       (filter (fetchEvents_filter decodeEventLog abi gameId) logs) = Inr evs" ..
  then have "map Inr evs =
      map (fetchEvents_map decodeEventLog abi)
        (filter (fetchEvents_filter decodeEventLog abi gameId) logs)"
    by (simp add: map_throwing_Inr_iff)
  moreover have "fetchEvents decodeEventLog abi addr (Some client) gameId fromBlock =
      ([], Inr evs)"
    by (simp add: fetchEvents_def assms evs)
  ultimately show ?thesis by blast
qed

lemma fetchEvents_excludes:
  assumes logs: "getLogs client
             \<lparr>q_address = addr, q_fromBlock = fromBlock, q_toBlock = ''latest''\<rparr> =
               Inr (xs @ lg # ys)"
    and no: "\<not> fetchEvents_filter decodeEventLog abi gameId lg"
  shows "\<exists>evs. fetchEvents decodeEventLog abi addr (Some client) gameId fromBlock =
                 ([], Inr evs) \<and>
               map Inr evs =
                 map (fetchEvents_map decodeEventLog abi)
                   (filter (fetchEvents_filter decodeEventLog abi gameId) (xs @ ys))"
  using fetchEvents_on_logs [OF logs, of decodeEventLog abi gameId] no by simp

text \<open>
  When the name \<open>decodeEventLog\<close> is bound to nothing, as the imports of the source leave
  it, every call throws inside the \<open>try\<close> of the filter and the fetch returns no event,
  whatever the logs are.
\<close>

lemma fetchEvents_without_decoder:
  "fetchEvents (throwing3 thrown) abi addr (Some (client_returning logs)) gameId fromBlock =
     ([], Inr [])"
proof -
  have "filter (fetchEvents_filter (throwing3 thrown) abi gameId) logs = []"
    by (simp add: fetchEvents_filter_def throwing3_def)
  then show ?thesis by (simp add: fetchEvents_def client_returning_def)
qed

text \<open>
  Claim C4. When the range query returns logs and decoding one of them throws, the fetch
  returns normally, writes nothing to the console, and its events are those of the other
  logs: the log is left out and no error reaches the caller.
\<close>

theorem undecodable_log_excluded:
  assumes "getLogs client
             \<lparr>q_address = addr, q_fromBlock = fromBlock, q_toBlock = ''latest''\<rparr> =
               Inr (xs @ lg # ys)"
    and "decodeEventLog abi (log_data lg) (log_topics lg) = Inl thrown"
  shows "\<exists>evs. fetchEvents decodeEventLog abi addr (Some client) gameId fromBlock =
                 ([], Inr evs) \<and>
               map Inr evs =
                 map (fetchEvents_map decodeEventLog abi)
                   (filter (fetchEvents_filter decodeEventLog abi gameId) (xs @ ys))"
proof (rule fetchEvents_excludes [OF assms(1)])
  show "\<not> fetchEvents_filter decodeEventLog abi gameId lg"
    using assms(2) by (simp add: fetchEvents_filter_def)
qed

theorem undecodable_log_excluded_witness:
  "decode_as ''MoveMade'' (Some 1) () (log_data (example_log ''0x'' None))
     (log_topics (example_log ''0x'' None)) =
     Inl (LibraryError ''AbiEventSignatureEmptyTopicsError'') \<and>
   fetchEvents (decode_as ''MoveMade'' (Some 1)) () ''0xC0''
     (Some (client_returning [example_log ''0x01'' None, example_log ''0x'' None]))
     (Finite 1) 0 =
     ([], Inr [\<lparr>ev_type = ''MoveMade'', ev_gameId = Some 1, ev_args = example_args (Some 1),
                 ev_blockNumber = 100, ev_transactionHash = ''0xabc''\<rparr>])"
proof -
  have d: "decode_as ''MoveMade'' (Some 1) () (log_data (example_log ''0x'' None))
     (log_topics (example_log ''0x'' None)) =
     Inl (LibraryError ''AbiEventSignatureEmptyTopicsError'')"
    by (simp add: decode_as_def example_log_def)
  have q: "getLogs (client_returning [example_log ''0x01'' None, example_log ''0x'' None])
      \<lparr>q_address = ''0xC0'', q_fromBlock = 0, q_toBlock = ''latest''\<rparr> =
      Inr ([example_log ''0x01'' None] @ example_log ''0x'' None # [])"
    by (simp add: client_returning_def)
  from undecodable_log_excluded
    [where xs = "[example_log ''0x01'' None]" and lg = "example_log ''0x'' None" and ys = "[]"
       and decodeEventLog = "decode_as ''MoveMade'' (Some 1)" and abi = "()"
       and gameId = "Finite 1", OF q d]
  obtain evs where
    r: "fetchEvents (decode_as ''MoveMade'' (Some 1)) () ''0xC0''
          (Some (client_returning [example_log ''0x01'' None, example_log ''0x'' None]))
          (Finite 1) 0 = ([], Inr evs)"
    and m: "map Inr evs =
          map (fetchEvents_map (decode_as ''MoveMade'' (Some 1)) ())
            (filter (fetchEvents_filter (decode_as ''MoveMade'' (Some 1)) () (Finite 1))
               ([example_log ''0x01'' None] @ []))"
    by blast
  from m have "evs = [\<lparr>ev_type = ''MoveMade'', ev_gameId = Some 1,
      ev_args = example_args (Some 1), ev_blockNumber = 100, ev_transactionHash = ''0xabc''\<rparr>]"
    by (simp add: fetchEvents_filter_def fetchEvents_map_def decode_as_def example_log_def
        example_args_def strict_eq_def Number_small map_eq_Cons_conv)
  with r d show ?thesis by simp
qed

text \<open>
  Claim C9. \<open>fetchEvents\<close> always resolves and never rejects: with no public client it
  returns the empty list, and when the range query throws it logs the error and returns the
  empty list. The mapping step cannot throw after the filter (\<open>fetch_map_never_throws\<close>),
  and a throw there would end in the same handler.
\<close>

theorem fetchEvents_never_rejects:
  "(\<exists>evs. snd (fetchEvents decodeEventLog abi addr publicClient gameId fromBlock) = Inr evs) \<and>
   fetchEvents decodeEventLog abi addr None gameId fromBlock = ([], Inr []) \<and>
   (getLogs client \<lparr>q_address = addr, q_fromBlock = fromBlock, q_toBlock = ''latest''\<rparr> =
      Inl thrown \<longrightarrow>
    fetchEvents decodeEventLog abi addr (Some client) gameId fromBlock =
      ([Err [Text [Lit ''Error fetching event history:''], Thrown thrown]], Inr []))"
  by (auto simp: fetchEvents_def split: option.splits sum.splits)

theorem fetchEvents_never_rejects_witness:
  "getLogs (client_throwing (LibraryError ''rpc down''))
     \<lparr>q_address = ''0xC0'', q_fromBlock = 0, q_toBlock = ''latest''\<rparr> =
     Inl (LibraryError ''rpc down'') \<and>
   fetchEvents (decode_as ''MoveMade'' (Some 1)) () ''0xC0''
     (Some (client_throwing (LibraryError ''rpc down''))) (Finite 1) 0 =
     ([Err [Text [Lit ''Error fetching event history:''], Thrown (LibraryError ''rpc down'')]],
      Inr []) \<and>
   fetchEvents (decode_as ''MoveMade'' (Some 1)) () ''0xC0'' None (Finite 1) 0 = ([], Inr [])"
  using fetchEvents_never_rejects
    [of "decode_as ''MoveMade'' (Some 1)" "()" "''0xC0''" None "Finite 1" 0
        "client_throwing (LibraryError ''rpc down'')" "LibraryError ''rpc down''"]
  by (simp add: client_throwing_def)

text \<open>
  Claim C10. A log whose decoded game identifier is \<open>0n\<close> does not pass the filter,
  whatever the target is, the target 0 included: the fetch returns the events of the other
  logs.
\<close>

theorem zero_identifier_excluded:
  assumes "getLogs client
             \<lparr>q_address = addr, q_fromBlock = fromBlock, q_toBlock = ''latest''\<rparr> =
               Inr (xs @ lg # ys)"
    and "decodeEventLog abi (log_data lg) (log_topics lg) = Inr d"
    and "dec_args d = Some a"
    and "arg_gameId a = Some 0"
  shows "\<not> fetchEvents_filter decodeEventLog abi gameId lg \<and>
         (\<exists>evs. fetchEvents decodeEventLog abi addr (Some client) gameId fromBlock =
                 ([], Inr evs) \<and>
               map Inr evs =
                 map (fetchEvents_map decodeEventLog abi)
                   (filter (fetchEvents_filter decodeEventLog abi gameId) (xs @ ys)))"
proof -
  have no: "\<not> fetchEvents_filter decodeEventLog abi gameId lg"
    using assms(2-4) by (simp add: fetchEvents_filter_def)
  with fetchEvents_excludes [OF assms(1) no] show ?thesis by blast
qed

theorem zero_identifier_excluded_witness:
  "\<not> fetchEvents_filter (decode_as ''MoveMade'' (Some 0)) () (Finite 0)
       (example_log ''0x02'' None) \<and>
   fetchEvents (decode_as ''MoveMade'' (Some 0)) () ''0xC0''
     (Some (client_returning [example_log ''0x02'' None])) (Finite 0) 7 = ([], Inr [])"
proof -
  have q: "getLogs (client_returning [example_log ''0x02'' None])
      \<lparr>q_address = ''0xC0'', q_fromBlock = 7, q_toBlock = ''latest''\<rparr> =
      Inr ([] @ example_log ''0x02'' None # [])"
    by (simp add: client_returning_def)
  have d: "decode_as ''MoveMade'' (Some 0) () (log_data (example_log ''0x02'' None))
      (log_topics (example_log ''0x02'' None)) =
      Inr \<lparr>dec_eventName = ''MoveMade'', dec_args = Some (example_args (Some 0))\<rparr>"
    by (simp add: decode_as_def example_log_def)
  have a: "dec_args \<lparr>dec_eventName = ''MoveMade'', dec_args = Some (example_args (Some 0))\<rparr> =
      Some (example_args (Some 0))"
    by simp
  have z: "arg_gameId (example_args (Some 0)) = Some 0"
    by (simp add: example_args_def)
  from zero_identifier_excluded
    [where xs = "[]" and lg = "example_log ''0x02'' None" and ys = "[]"
       and decodeEventLog = "decode_as ''MoveMade'' (Some 0)" and abi = "()"
       and gameId = "Finite 0", OF q d a z]
  show ?thesis by auto
qed

text \<open>
  Claim C1, at the game 0. The range query returns one log, which decodes to a
  \<open>PlayerJoined\<close> event of game \<open>0n\<close>, and the target is the game 0: the fetch returns no
  record. With the game 5 in both places it returns the record of the log.
\<close>

theorem history_of_game_zero_is_empty:
  "fetchEvents (decode_as ''PlayerJoined'' (Some 0)) () ''0xC0''
     (Some (client_returning [example_log ''0x01'' None])) (Finite 0) 0 = ([], Inr []) \<and>
   fetchEvents (decode_as ''PlayerJoined'' (Some 5)) () ''0xC0''
     (Some (client_returning [example_log ''0x01'' None])) (Finite 5) 0 =
     ([], Inr [\<lparr>ev_type = ''PlayerJoined'', ev_gameId = Some 5,
                 ev_args = example_args (Some 5), ev_blockNumber = 100,
                 ev_transactionHash = ''0xabc''\<rparr>])"
  by (simp add: fetchEvents_def fetchEvents_filter_def fetchEvents_map_def decode_as_def
      client_returning_def example_log_def example_args_def strict_eq_def Number_small)


section \<open>The live handler\<close>

lemma forEach_skip:
  "f x = ([], None) \<Longrightarrow> forEach f (xs @ x # ys) = forEach f (xs @ ys)"
  by (induction xs) (simp_all split: prod.splits option.splits)


lemma handleLog_skip:
  "\<not> strict_eq (Number (arg_gameId (log_args lg))) g \<Longrightarrow>
   handleLog (Some g) onEvent showToasts eventName lg = ([], None)"
  by (simp add: handleLog_def)

lemma handleEvent_drop:
  "handleLog gameId onEvent showToasts eventName lg = ([], None) \<Longrightarrow>
   handleEvent gameId onEvent showToasts eventName (xs @ lg # ys) =
     handleEvent gameId onEvent showToasts eventName (xs @ ys)"
  unfolding handleEvent_def by (rule forEach_skip)

text \<open>
  Claim C3, as the code has it. With a target game identifier, a log whose identifier,
  converted by \<open>Number\<close>, is not \<open>===\<close> the target has no effect at all: no toast, no call
  of the callback, no console line and no throw, wherever it stands in the batch. For an
  identifier of magnitude at most \<open>2 ^ 53\<close> that is every log whose identifier is not the
  target.
\<close>

theorem nonmatching_log_not_forwarded:
  "(\<not> strict_eq (Number (arg_gameId (log_args lg))) g \<longrightarrow>
      handleLog (Some g) onEvent showToasts eventName lg = ([], None) \<and>
      handleEvent (Some g) onEvent showToasts eventName (xs @ lg # ys) =
        handleEvent (Some g) onEvent showToasts eventName (xs @ ys)) \<and>
   (arg_gameId (log_args lg) = Some b \<and> \<bar>b\<bar> \<le> 2 ^ 53 \<and> g \<noteq> Finite (of_int b) \<longrightarrow>
      handleLog (Some g) onEvent showToasts eventName lg = ([], None) \<and>
      handleEvent (Some g) onEvent showToasts eventName (xs @ lg # ys) =
        handleEvent (Some g) onEvent showToasts eventName (xs @ ys))"
proof -
  have skip: "handleLog (Some g) onEvent showToasts eventName lg = ([], None) \<and>
      handleEvent (Some g) onEvent showToasts eventName (xs @ lg # ys) =
        handleEvent (Some g) onEvent showToasts eventName (xs @ ys)"
    if "\<not> strict_eq (Number (arg_gameId (log_args lg))) g"
    using handleLog_skip [OF that] handleEvent_drop by metis
  moreover have "\<not> strict_eq (Number (arg_gameId (log_args lg))) g"
    if "arg_gameId (log_args lg) = Some b" "\<bar>b\<bar> \<le> 2 ^ 53" "g \<noteq> Finite (of_int b)"
    using that safe_id_matches_iff [of b g] by simp
  ultimately show ?thesis by blast
qed

theorem nonmatching_log_not_forwarded_witness:
  "\<not> strict_eq (Number (arg_gameId (log_args (example_log ''0x01'' (Some 2))))) (Finite 1) \<and>
   arg_gameId (log_args (example_log ''0x01'' (Some 2))) = Some 2 \<and>
   \<bar>2 :: int\<bar> \<le> 2 ^ 53 \<and> Finite 1 \<noteq> Finite (of_int 2) \<and>
   handleLog (Some (Finite 1)) (Some ev_type) True MoveMade (example_log ''0x01'' (Some 2)) =
     ([], None) \<and>
   handleEvent (Some (Finite 1)) (Some ev_type) True MoveMade
     ([example_log ''0x01'' (Some 1)] @ example_log ''0x01'' (Some 2) # []) =
   handleEvent (Some (Finite 1)) (Some ev_type) True MoveMade
     ([example_log ''0x01'' (Some 1)] @ [])"
proof -
  have n: "\<not> strict_eq (Number (arg_gameId (log_args (example_log ''0x01'' (Some 2)))))
      (Finite 1)"
    by (simp add: example_log_def example_args_def Number_small strict_eq_def)
  have a: "arg_gameId (log_args (example_log ''0x01'' (Some 2))) = Some 2"
    by (simp add: example_log_def example_args_def)
  from nonmatching_log_not_forwarded
    [where lg = "example_log ''0x01'' (Some 2)" and g = "Finite 1" and b = 2
       and onEvent = "Some ev_type" and showToasts = True and eventName = MoveMade
       and xs = "[example_log ''0x01'' (Some 1)]" and ys = "[]"] n a
  show ?thesis by simp
qed

text \<open>
  The claim as stated fails beyond \<open>2 ^ 53\<close>: the identifier \<open>9007199254740993\<close> is not the
  target \<open>9007199254740992\<close>, and its log is toasted and forwarded to the callback.
\<close>

theorem rounded_identifier_is_forwarded:
  "(9007199254740993 :: int) \<noteq> 9007199254740992 \<and>
   handleEvent (Some (Finite 9007199254740992)) (Some ev_type) True PlayerJoined
     [example_log ''0x01'' (Some 9007199254740993)] =
     ([ToastSuccess [Lit (emoji_video_game @ '' Player joined the game!'')],
       OnEvent
         \<lparr>ev_type = ''PlayerJoined'', ev_gameId = Some 9007199254740993,
          ev_args = example_args (Some 9007199254740993), ev_blockNumber = 100,
          ev_transactionHash = ''0xabc''\<rparr>
         ''PlayerJoined'',
       ConsoleLog [Lit (emoji_antenna @ '' Event: ''), Interp (JStr ''PlayerJoined'')]
         \<lparr>ev_type = ''PlayerJoined'', ev_gameId = Some 9007199254740993,
          ev_args = example_args (Some 9007199254740993), ev_blockNumber = 100,
          ev_transactionHash = ''0xabc''\<rparr>],
      None)"
  by (simp add: handleEvent_def handleLog_def toast_def example_log_def example_args_def
      Number_def Number_bigint_rounds strict_eq_def Let_def)

text \<open>
  With toasts on, a processed log of one of the four kinds whose toast is \<open>toast.success\<close>
  raises exactly that toast; for the two other kinds the body throws at the toast call, and a
  throw ends the batch.
\<close>

lemma handleLog_success_kinds:
  assumes "case gameId of None \<Rightarrow> True
           | Some g \<Rightarrow> strict_eq (Number (arg_gameId (log_args lg))) g"
  shows
  "filter is_toast (fst (handleLog gameId onEvent True PlayerJoined lg)) =
     [ToastSuccess [Lit (emoji_video_game @ '' Player joined the game!'')]] \<and>
   filter is_toast (fst (handleLog gameId onEvent True MoveMade lg)) =
     [ToastSuccess
        [Lit (emoji_dart @ '' Move made: ''), Interp (arg_subtraction (log_args lg)),
         Lit ('' '' @ arrow_right @ '' ''), Interp (arg_newNumber (log_args lg))]] \<and>
   filter is_toast (fst (handleLog gameId onEvent True GameFinished lg)) =
     [ToastSuccess [Lit (emoji_party @ '' Game finished!'')]] \<and>
   filter is_toast (fst (handleLog gameId onEvent True NumberGenerated lg)) =
     [ToastSuccess [Lit (emoji_die @ '' Game started! Number generated.'')]]"
  using assms
  by (cases gameId; cases onEvent) (simp_all add: handleLog_def toast_def Let_def)

lemma handleLog_missing_methods:
  assumes "case gameId of None \<Rightarrow> True
           | Some g \<Rightarrow> strict_eq (Number (arg_gameId (log_args lg))) g"
  shows
  "handleLog gameId onEvent True TimeoutHandled lg =
     ([], Some (TypeError ''toast.warning is not a function'')) \<and>
   handleLog gameId onEvent True GameCancelled lg =
     ([], Some (TypeError ''toast.info is not a function''))"
  using assms
  by (cases gameId) (simp_all add: handleLog_def toast_def Let_def)

lemma handleEvent_aborts:
  assumes "handleLog gameId onEvent showToasts eventName lg = ([], Some thrown)"
  shows "handleEvent gameId onEvent showToasts eventName (lg # ys) = ([], Some thrown)"
  using assms by (simp add: handleEvent_def)

text \<open>
  Claim C6, at the kinds \<open>TimeoutHandled\<close> and \<open>GameCancelled\<close>. Toasts are on and the
  logs are of the target game. The handler, called directly or as the \<open>onLogs\<close> of the fifth
  and sixth registration of the hook, shows no toast: it throws the \<open>TypeError\<close> of the
  missing method, before the callback and the console line, and the second log of the batch is
  not reached. The first registration (\<open>PlayerJoined\<close>) shows its toast.
\<close>

theorem toast_of_missing_method_throws:
  "handleEvent (Some (Finite 1)) (Some ev_type) True TimeoutHandled
     [example_log ''0x01'' (Some 1), example_log ''0x01'' (Some 1)] =
     ([], Some (TypeError ''toast.warning is not a function'')) \<and>
   handleEvent (Some (Finite 1)) (Some ev_type) True GameCancelled
     [example_log ''0x01'' (Some 1)] =
     ([], Some (TypeError ''toast.info is not a function'')) \<and>
   w_eventName (useGameEvents ''0xC0'' () (Some (Finite 1)) (Some ev_type) None ! 4) =
     ''TimeoutHandled'' \<and>
   w_onLogs (useGameEvents ''0xC0'' () (Some (Finite 1)) (Some ev_type) None ! 4)
     [example_log ''0x01'' (Some 1)] =
     ([], Some (TypeError ''toast.warning is not a function'')) \<and>
   w_eventName (useGameEvents ''0xC0'' () (Some (Finite 1)) (Some ev_type) None ! 5) =
     ''GameCancelled'' \<and>
   w_onLogs (useGameEvents ''0xC0'' () (Some (Finite 1)) (Some ev_type) None ! 5)
     [example_log ''0x01'' (Some 1)] =
     ([], Some (TypeError ''toast.info is not a function'')) \<and>
   filter is_toast
     (fst (w_onLogs (useGameEvents ''0xC0'' () (Some (Finite 1)) (Some ev_type) None ! 0)
        [example_log ''0x01'' (Some 1)])) =
     [ToastSuccess [Lit (emoji_video_game @ '' Player joined the game!'')]]"
  by (simp add: useGameEvents_def handleEvent_def handleLog_def toast_def Let_def
      example_log_def example_args_def Number_small strict_eq_def)








lemma fetchEvents_map_kind:
  assumes "fetchEvents_map decodeEventLog abi lg = Inr ev"
  shows "\<exists>d. decodeEventLog abi (log_data lg) (log_topics lg) = Inr d \<and>
             ev_type ev = dec_eventName d"
  using assms by (auto simp: fetchEvents_map_def split: sum.splits option.splits)

lemma fetchEvents_record_kind:
  assumes logs: "getLogs client
             \<lparr>q_address = addr, q_fromBlock = fromBlock, q_toBlock = ''latest''\<rparr> = Inr logs"
    and res: "snd (fetchEvents decodeEventLog abi addr (Some client) gameId fromBlock) = Inr evs"
    and ev: "ev \<in> set evs"
  shows "\<exists>lg d. lg \<in> set logs \<and>
           decodeEventLog abi (log_data lg) (log_topics lg) = Inr d \<and>
           ev_type ev = dec_eventName d"
proof -
  from fetchEvents_on_logs [OF logs, of decodeEventLog abi gameId] res
  have m: "map Inr evs = map (fetchEvents_map decodeEventLog abi)
             (filter (fetchEvents_filter decodeEventLog abi gameId) logs)"
    by auto
  have "Inr ev \<in> set (map (fetchEvents_map decodeEventLog abi)
      (filter (fetchEvents_filter decodeEventLog abi gameId) logs))"
    unfolding m [symmetric] using ev by simp
  then have "Inr ev \<in> fetchEvents_map decodeEventLog abi `
      set (filter (fetchEvents_filter decodeEventLog abi gameId) logs)"
    by (simp only: set_map)
  then obtain lg where lg: "lg \<in> set logs" "fetchEvents_map decodeEventLog abi lg = Inr ev"
    by force
  with fetchEvents_map_kind [OF lg(2)] show ?thesis by blast
qed



text \<open>
  For a registration of the refresh hook whose toast is \<open>toast.success\<close>, or of a kind
  without a toast, \<open>onRefresh\<close> is called once for every log of the batch whose identifier
  matches the game, and nothing is thrown.
\<close>

lemma refresh_calls_handleLog:
  assumes "eventName \<noteq> TimeoutHandled" "eventName \<noteq> GameCancelled"
  shows "\<exists>out. handleLog (Some g)
        (Some (\<lambda>event.
           [Logged (Log [Text [Lit (emoji_cycle @ '' Auto-refreshing game ''),
                               Interp (JNum g), Lit '' due to '',
                               Interp (JStr (ev_type event))]]),
            OnRefresh onRefresh]))
        showToasts eventName lg = (out, None) \<and>
     sum_list (map refresh_calls out) =
       (if strict_eq (Number (arg_gameId (log_args lg))) g then 1 else 0)"
  using assms by (cases eventName) (simp_all add: handleLog_def toast_def Let_def)

lemma refresh_calls_handleEvent:
  assumes "eventName \<noteq> TimeoutHandled" "eventName \<noteq> GameCancelled"
  shows "\<exists>out. handleEvent (Some g)
        (Some (\<lambda>event.
           [Logged (Log [Text [Lit (emoji_cycle @ '' Auto-refreshing game ''),
                               Interp (JNum g), Lit '' due to '',
                               Interp (JStr (ev_type event))]]),
            OnRefresh onRefresh]))
        showToasts eventName logs = (out, None) \<and>
     sum_list (map refresh_calls out) =
       length (filter (\<lambda>lg. strict_eq (Number (arg_gameId (log_args lg))) g) logs)"
proof (induction logs)
  case Nil
  then show ?case by (simp add: handleEvent_def)
next
  case (Cons lg logs)
  from refresh_calls_handleLog [OF assms, of g onRefresh showToasts lg]
  obtain o1 where o1: "handleLog (Some g)
        (Some (\<lambda>event.
           [Logged (Log [Text [Lit (emoji_cycle @ '' Auto-refreshing game ''),
                               Interp (JNum g), Lit '' due to '',
                               Interp (JStr (ev_type event))]]),
            OnRefresh onRefresh]))
        showToasts eventName lg = (o1, None)"
    "sum_list (map refresh_calls o1) =
       (if strict_eq (Number (arg_gameId (log_args lg))) g then 1 else 0)"
    by blast
  from Cons.IH obtain o2 where o2: "handleEvent (Some g)
        (Some (\<lambda>event.
           [Logged (Log [Text [Lit (emoji_cycle @ '' Auto-refreshing game ''),
                               Interp (JNum g), Lit '' due to '',
                               Interp (JStr (ev_type event))]]),
            OnRefresh onRefresh]))
        showToasts eventName logs = (o2, None)"
    "sum_list (map refresh_calls o2) =
       length (filter (\<lambda>lg. strict_eq (Number (arg_gameId (log_args lg))) g) logs)"
    by blast
  from o1 o2 show ?case by (simp add: handleEvent_def)
qed

text \<open>
  Claim C7, at the kinds \<open>TimeoutHandled\<close> and \<open>GameCancelled\<close>. The refresh hook passes
  no options, so toasts are on. Two logs of the game 1 delivered to its fifth registration
  (\<open>TimeoutHandled\<close>) call \<open>onRefresh\<close> zero times: the handler throws at \<open>toast.warning\<close>
  on the first log. The sixth registration throws likewise. The same two logs delivered to the
  first registration (\<open>PlayerJoined\<close>) call \<open>onRefresh\<close> twice.
\<close>

theorem refresh_skipped_on_missing_toast_method:
  "w_eventName (useGameEventRefresh ''0xC0'' () (Finite 1) () ! 4) = ''TimeoutHandled'' \<and>
   w_onLogs (useGameEventRefresh ''0xC0'' () (Finite 1) () ! 4)
     [example_log ''0x01'' (Some 1), example_log ''0x01'' (Some 1)] =
     ([], Some (TypeError ''toast.warning is not a function'')) \<and>
   sum_list (map refresh_calls
     (fst (w_onLogs (useGameEventRefresh ''0xC0'' () (Finite 1) () ! 4)
        [example_log ''0x01'' (Some 1), example_log ''0x01'' (Some 1)]))) = 0 \<and>
   w_eventName (useGameEventRefresh ''0xC0'' () (Finite 1) () ! 5) = ''GameCancelled'' \<and>
   w_onLogs (useGameEventRefresh ''0xC0'' () (Finite 1) () ! 5)
     [example_log ''0x01'' (Some 1)] =
     ([], Some (TypeError ''toast.info is not a function'')) \<and>
   sum_list (map refresh_calls
     (fst (w_onLogs (useGameEventRefresh ''0xC0'' () (Finite 1) () ! 0)
        [example_log ''0x01'' (Some 1), example_log ''0x01'' (Some 1)]))) = 2"
  by (simp add: useGameEventRefresh_def useGameEvents_def handleEvent_def handleLog_def
      toast_def Let_def example_log_def example_args_def Number_small strict_eq_def)

end
